theory Spec2Isabelle
  imports Complex_Main
begin

section \<open>Selection geometry of the PDF viewer\<close>

text \<open>
  The front end keeps all coordinates as JavaScript numbers. They are modelled as
  \<^typ>\<open>real\<close>: finite values with exact arithmetic. A JavaScript \<^verbatim>\<open>Error\<close> is
  modelled by its message.
\<close>

datatype js_error = Error string

record point =
  pt_x :: real
  pt_y :: real

text \<open>\<^verbatim>\<open>type Rect = { x: number; y: number; w: number; h: number }\<close>\<close>

record rect =
  rect_x :: real
  rect_y :: real
  rect_w :: real
  rect_h :: real

definition normalizeRect :: "point \<Rightarrow> point \<Rightarrow> rect" where
  "normalizeRect a b =
     \<lparr>rect_x = min (pt_x a) (pt_x b),
      rect_y = min (pt_y a) (pt_y b),
      rect_w = \<bar>pt_x a - pt_x b\<bar>,
      rect_h = \<bar>pt_y a - pt_y b\<bar>\<rparr>"

subsection \<open>Cropping the captured viewport\<close>

text \<open>The metrics of the scroll container \<^verbatim>\<open>el\<close> that the function reads.\<close>

record scroll_container =
  clientWidth :: real
  clientHeight :: real
  scrollLeft :: real
  scrollTop :: real

text \<open>
  What the browser supplies to one call: the outcome of \<^verbatim>\<open>await html2canvas(el, ...)\<close>
  (a rejection, or the captured canvas), \<^verbatim>\<open>window.devicePixelRatio\<close> (\<open>None\<close> where it is
  undefined) and whether \<^verbatim>\<open>out.getContext("2d")\<close> yields a context.
\<close>

record 'c browser =
  html2canvas :: "js_error + 'c"
  devicePixelRatio :: "real option"
  context2d :: bool

text \<open>
  The arguments of the single \<^verbatim>\<open>ctx.drawImage(canvas, sx, sy, sw, sh, 0, 0, out.width, out.height)\<close>
  call. The PNG data URL that \<^verbatim>\<open>out.toDataURL("image/png")\<close> returns is the rendering of
  this call, so the model returns the call.
\<close>

record 'c cropped =
  crop_source :: 'c
  crop_sx :: real
  crop_sy :: real
  crop_sw :: real
  crop_sh :: real
  out_width :: int
  out_height :: int

definition outside_visible_area :: string where
  "outside_visible_area =
     ''Selection is outside the visible area. Scroll to the region and try again.''"

definition no_canvas_context :: string where
  "no_canvas_context = ''Canvas context not available''"

text \<open>\<^verbatim>\<open>window.devicePixelRatio || 1\<close>: undefined and \<open>0\<close> are falsy.\<close>

definition dpr_or_1 :: "real option \<Rightarrow> real" where
  "dpr_or_1 d = (case d of None \<Rightarrow> 1 | Some r \<Rightarrow> if r = 0 then 1 else r)"

definition cropScreenshotFromScrollContainer ::
  "'c browser \<Rightarrow> scroll_container \<Rightarrow> rect \<Rightarrow> js_error + 'c cropped" where
  "cropScreenshotFromScrollContainer env el r =
     (case html2canvas env of
        Inl e \<Rightarrow> Inl e
      | Inr canvas \<Rightarrow>
          let dpr = dpr_or_1 (devicePixelRatio env);
              vx = rect_x r - scrollLeft el;
              vy = rect_y r - scrollTop el
          in if vx + rect_w r < 0 \<or> vy + rect_h r < 0
                \<or> vx > clientWidth el \<or> vy > clientHeight el
             then Inl (Error outside_visible_area)
             else
               let sx = max 0 vx * dpr;
                   sy = max 0 vy * dpr;
                   sw = min (rect_w r) (clientWidth el - vx) * dpr;
                   sh = min (rect_h r) (clientHeight el - vy) * dpr;
                   ow = max 1 \<lfloor>sw\<rfloor>;
                   oh = max 1 \<lfloor>sh\<rfloor>
               in if \<not> context2d env then Inl (Error no_canvas_context)
                  else Inr \<lparr>crop_source = canvas, crop_sx = sx, crop_sy = sy,
                             crop_sw = sw, crop_sh = sh,
                             out_width = ow, out_height = oh\<rparr>)"

section \<open>JavaScript values\<close>

text \<open>
  Request bodies, model outputs and fetch responses are JSON values. A JavaScript
  \<^verbatim>\<open>undefined\<close> is \<open>None\<close> of \<^typ>\<open>'a option\<close>. Strings are lists of code units below
  256 (\<^typ>\<open>char\<close>). An object is its list of properties; a parsed object has distinct keys, and
  a property is read with \<^const>\<open>map_of\<close>.
\<close>

datatype json =
    JNull
  | JBool bool
  | JNum real
  | JStr string
  | JArr "json list"
  | JObj "(string \<times> json) list"

text \<open>
  The built-ins of the JavaScript engine that the code calls and the repository does not
  define: \<^verbatim>\<open>JSON.parse\<close> (\<open>None\<close> where it throws), the conversion of a number to a string,
  and the message of the \<^verbatim>\<open>TypeError\<close> the engine raises.
\<close>

record runtime =
  JSON_parse :: "string \<Rightarrow> json option"
  Number_toString :: "real \<Rightarrow> string"
  TypeError_message :: string

fun truthy :: "json \<Rightarrow> bool" where
  "truthy JNull = False"
| "truthy (JBool b) = b"
| "truthy (JNum r) = (r \<noteq> 0)"
| "truthy (JStr s) = (s \<noteq> [])"
| "truthy (JArr xs) = True"
| "truthy (JObj kvs) = True"

fun truthy_opt :: "json option \<Rightarrow> bool" where
  "truthy_opt None = False"
| "truthy_opt (Some v) = truthy v"

fun typeof :: "json option \<Rightarrow> string" where
  "typeof None = ''undefined''"
| "typeof (Some JNull) = ''object''"
| "typeof (Some (JBool b)) = ''boolean''"
| "typeof (Some (JNum r)) = ''number''"
| "typeof (Some (JStr s)) = ''string''"
| "typeof (Some (JArr xs)) = ''object''"
| "typeof (Some (JObj kvs)) = ''object''"

text \<open>
  Reading one of the property names the code uses (\<^verbatim>\<open>v.name\<close>, \<^verbatim>\<open>v?.name\<close> or destructuring)
  from a value that is not \<^verbatim>\<open>null\<close>: only an object has them.
\<close>

fun property :: "json \<Rightarrow> string \<Rightarrow> json option" where
  "property (JObj kvs) k = map_of kvs k"
| "property v k = None"

text \<open>The string held by a value already known to be a string.\<close>

fun string_value :: "json option \<Rightarrow> string" where
  "string_value (Some (JStr s)) = s"
| "string_value v = []"

text \<open>\<^verbatim>\<open>v || ""\<close>\<close>

fun or_empty_string :: "json option \<Rightarrow> json" where
  "or_empty_string None = JStr []"
| "or_empty_string (Some v) = (if truthy v then v else JStr [])"

text \<open>
  \<^verbatim>\<open>String(v)\<close> and \<^verbatim>\<open>v.toString()\<close> on a JSON value; \<open>None\<close> where the engine throws a
  \<^verbatim>\<open>TypeError\<close>: an object whose own property \<^verbatim>\<open>toString\<close> hides the inherited method (a JSON
  value is never callable). An array joins its elements with commas, \<^verbatim>\<open>null\<close> elements as
  empty strings.
\<close>

fun ToString :: "(real \<Rightarrow> string) \<Rightarrow> json \<Rightarrow> string option"
  and join_elements :: "(real \<Rightarrow> string) \<Rightarrow> json list \<Rightarrow> string option" where
  "ToString n JNull = Some ''null''"
| "ToString n (JBool b) = Some (if b then ''true'' else ''false'')"
| "ToString n (JNum r) = Some (n r)"
| "ToString n (JStr s) = Some s"
| "ToString n (JArr xs) = join_elements n xs"
| "ToString n (JObj kvs) =
     (if ''toString'' \<in> set (map fst kvs) then None else Some ''[object Object]'')"
| "join_elements n [] = Some []"
| "join_elements n (x # xs) =
     (case (if x = JNull then Some [] else ToString n x) of
        None \<Rightarrow> None
      | Some s \<Rightarrow>
          (if xs = [] then Some s
           else (case join_elements n xs of
                   None \<Rightarrow> None
                 | Some t \<Rightarrow> Some (s @ '','' @ t))))"

text \<open>
  \<^verbatim>\<open>String.prototype.trim\<close>: the white space and line terminators among the code units below
  256 are tab, line feed, vertical tab, form feed, carriage return, space and no-break space.
\<close>

definition js_whitespace :: "char \<Rightarrow> bool" where
  "js_whitespace c =
     (c = CHR 0x09 \<or> c = CHR 0x0A \<or> c = CHR 0x0B \<or> c = CHR 0x0C \<or> c = CHR 0x0D
      \<or> c = CHR 0x20 \<or> c = CHR 0xA0)"

definition trim :: "string \<Rightarrow> string" where
  "trim s = rev (dropWhile js_whitespace (rev (dropWhile js_whitespace s)))"

definition startsWith :: "string \<Rightarrow> string \<Rightarrow> bool" where
  "startsWith s p = (take (length p) s = p)"

text \<open>\<^verbatim>\<open>xs.slice(-30)\<close>: the last 30 elements, all of them when there are fewer.\<close>

definition slice_last30 :: "'a list \<Rightarrow> 'a list" where
  "slice_last30 xs = drop (length xs - 30) xs"

section \<open>The two HTTP endpoints\<close>

record http_response =
  status :: nat
  body :: json

text \<open>The argument of \<^verbatim>\<open>client.responses.create\<close>.\<close>

datatype content_part = input_text string | input_image string

datatype message_content = Text string | Parts "content_part list"

record input_message =
  role :: string
  content :: message_content

record model_request =
  model :: string
  instructions :: "string option"
  input_messages :: "input_message list"
  format_name :: string
  format_schema :: json

text \<open>
  The model API: for a request, either a rejection (an error with its message) or a response,
  of which the handlers read \<^verbatim>\<open>output_text\<close> only.
\<close>

type_synonym model_api = "model_request \<Rightarrow> js_error + string"

definition error_body :: "string \<Rightarrow> json" where
  "error_body msg = JObj [(''error'', JStr msg)]"

text \<open>\<^verbatim>\<open>req.body || {}\<close>\<close>

fun body_or_empty :: "json option \<Rightarrow> json" where
  "body_or_empty None = JObj []"
| "body_or_empty (Some v) = (if truthy v then v else JObj [])"

text \<open>
  The outer \<^verbatim>\<open>catch (error)\<close> of both handlers:
  status 500 with \<^verbatim>\<open>error?.message || "Internal server error"\<close>.
\<close>

definition internal_error :: "js_error \<Rightarrow> http_response" where
  "internal_error e =
     (case e of Error msg \<Rightarrow>
        \<lparr>status = 500,
         body = error_body (if msg = [] then ''Internal server error'' else msg)\<rparr>)"

text \<open>
  The tail shared by both handlers, after the model has answered: parse \<^verbatim>\<open>output_text\<close>;
  502 with the raw text where parsing throws, otherwise \<^verbatim>\<open>res.json(parsed)\<close>.
\<close>

definition invalid_json :: string where
  "invalid_json = ''Model did not return valid JSON''"

definition respond_with_output :: "runtime \<Rightarrow> string \<Rightarrow> http_response" where
  "respond_with_output rt jsonText =
     (case JSON_parse rt jsonText of
        None \<Rightarrow>
          \<lparr>status = 502,
           body = JObj [(''error'', JStr invalid_json), (''raw'', JStr jsonText)]\<rparr>
      | Some parsed \<Rightarrow> \<lparr>status = 200, body = parsed\<rparr>)"

subsection \<open>POST /api/explain\<close>

definition explain_systemPrompt :: string where
  "explain_systemPrompt =
     ''You are an intelligent screen analysis assistant.\<newline>\<newline>'' @
     ''Your task:\<newline>'' @
     ''1. Identify what type of task or domain the screenshot represents.\<newline>'' @
     ''2. Provide a clear and useful explanation.\<newline>'' @
     ''3. If information is insufficient, provide at most 3 essential follow-up questions.\<newline>\<newline>'' @
     ''Category must be one of:\<newline>'' @
     ''[math, code, writing, translation, finance, science, general]\<newline>\<newline>'' @
     ''Output must strictly follow the JSON schema.''"

definition type_schema :: "string \<Rightarrow> json" where
  "type_schema t = JObj [(''type'', JStr t)]"

definition string_array_schema :: json where
  "string_array_schema = JObj [(''type'', JStr ''array''), (''items'', type_schema ''string'')]"

definition ScreenAssistResponse_schema :: json where
  "ScreenAssistResponse_schema =
     JObj [(''type'', JStr ''object''),
           (''additionalProperties'', JBool False),
           (''properties'',
              JObj [(''category'', type_schema ''string''),
                    (''confidence'', type_schema ''number''),
                    (''summary'', type_schema ''string''),
                    (''followups'', string_array_schema)]),
           (''required'',
              JArr [JStr ''category'', JStr ''confidence'', JStr ''summary'',
                    JStr ''followups''])]"

definition additional_instruction :: string where
  "additional_instruction = ''\<newline>\<newline>Additional user instruction:\<newline>''"

text \<open>
  The handler up to the model call: \<open>Inl\<close> is a response sent without calling the model,
  \<open>Inr\<close> the request passed to \<^verbatim>\<open>client.responses.create\<close>.
\<close>

definition explain_request :: "runtime \<Rightarrow> json option \<Rightarrow> http_response + model_request" where
  "explain_request rt req_body =
     (let b = body_or_empty req_body;
          imageDataUrl = property b ''imageDataUrl'';
          instruction = property b ''instruction''
      in if \<not> truthy_opt imageDataUrl \<or> typeof imageDataUrl \<noteq> ''string''
         then Inl \<lparr>status = 400, body = error_body ''imageDataUrl is required''\<rparr>
         else if \<not> startsWith (string_value imageDataUrl) ''data:image/''
         then Inl \<lparr>status = 400,
                   body = error_body
                     ''imageDataUrl must be a valid base64 data URL (e.g. data:image/png;base64,...)''\<rparr>
         else
           (case ToString (Number_toString rt) (or_empty_string instruction) of
              None \<Rightarrow> Inl (internal_error (Error (TypeError_message rt)))
            | Some str \<Rightarrow>
                let userInstruction = trim str;
                    extraInstruction =
                      (if length userInstruction > 0
                       then additional_instruction @ userInstruction else [])
                in Inr \<lparr>model = ''gpt-4.1-mini'',
                         instructions = None,
                         input_messages =
                           [\<lparr>role = ''user'',
                             content = Parts
                               [input_text (explain_systemPrompt @ extraInstruction),
                                input_image (string_value imageDataUrl)]\<rparr>],
                         format_name = ''ScreenAssistResponse'',
                         format_schema = ScreenAssistResponse_schema\<rparr>))"

text \<open>
  A handler run: the response sent, and the requests made to the model API.
\<close>

definition run_handler ::
  "runtime \<Rightarrow> model_api \<Rightarrow> http_response + model_request
     \<Rightarrow> http_response \<times> model_request list" where
  "run_handler rt api prepared =
     (case prepared of
        Inl response \<Rightarrow> (response, [])
      | Inr request \<Rightarrow>
          (case api request of
             Inl e \<Rightarrow> (internal_error e, [request])
           | Inr output_text \<Rightarrow> (respond_with_output rt output_text, [request])))"

definition post_api_explain ::
  "runtime \<Rightarrow> model_api \<Rightarrow> json option \<Rightarrow> http_response \<times> model_request list" where
  "post_api_explain rt api req_body = run_handler rt api (explain_request rt req_body)"

subsection \<open>POST /api/chat\<close>

definition chat_systemPrompt :: "string \<Rightarrow> string" where
  "chat_systemPrompt context =
     ''You are a helpful general-purpose assistant.\<newline>\<newline>'' @
     ''You will receive:\<newline>'' @
     ''- Recognized material from a screenshot\<newline>'' @
     ''- Conversation history\<newline>\<newline>'' @
     ''Requirements:\<newline>'' @
     ''- Maintain conversational continuity.\<newline>'' @
     ''- Build upon previous answers instead of restarting.\<newline>'' @
     ''- Use the screenshot material when relevant.\<newline>'' @
     ''- If the user's question is unrelated to the screenshot, answer it normally as a general assistant.\<newline>'' @
     ''- If information is insufficient, say what is missing and provide at most 2 follow-up questions.\<newline>\<newline>'' @
     ''[Screenshot Material]\<newline>'' @ context @ ''\<newline>''"

definition ChatResponse_schema :: json where
  "ChatResponse_schema =
     JObj [(''type'', JStr ''object''),
           (''additionalProperties'', JBool False),
           (''properties'',
              JObj [(''answer'', type_schema ''string''),
                    (''followups'', string_array_schema)]),
           (''required'', JArr [JStr ''answer'', JStr ''followups''])]"

text \<open>
  One element of \<^verbatim>\<open>safeHistory.slice(-30).map(...)\<close>; \<open>None\<close> where \<^verbatim>\<open>String(...)\<close> throws.
  \<^verbatim>\<open>m?.role\<close> and \<^verbatim>\<open>m?.text\<close> are undefined on \<^verbatim>\<open>null\<close> as on every value that is not an object.
\<close>

definition turn :: "runtime \<Rightarrow> json \<Rightarrow> input_message option" where
  "turn rt m =
     (case ToString (Number_toString rt) (or_empty_string (property m ''text'')) of
        None \<Rightarrow> None
      | Some str \<Rightarrow>
          Some \<lparr>role = (if property m ''role'' = Some (JStr ''assistant'')
                         then ''assistant'' else ''user''),
                content = Text str\<rparr>)"

fun map_turns :: "runtime \<Rightarrow> json list \<Rightarrow> input_message list option" where
  "map_turns rt [] = Some []"
| "map_turns rt (m # ms) =
     (case turn rt m of
        None \<Rightarrow> None
      | Some t \<Rightarrow> (case map_turns rt ms of None \<Rightarrow> None | Some ts \<Rightarrow> Some (t # ts)))"

text \<open>\<^verbatim>\<open>Array.isArray(history) ? history : []\<close>\<close>

fun safeHistory :: "json option \<Rightarrow> json list" where
  "safeHistory (Some (JArr xs)) = xs"
| "safeHistory v = []"

definition chat_request :: "runtime \<Rightarrow> json option \<Rightarrow> http_response + model_request" where
  "chat_request rt req_body =
     (let b = body_or_empty req_body;
          context = property b ''context'';
          question = property b ''question'';
          history = property b ''history''
      in if \<not> truthy_opt context \<or> typeof context \<noteq> ''string''
         then Inl \<lparr>status = 400, body = error_body ''context is required''\<rparr>
         else if \<not> truthy_opt question \<or> typeof question \<noteq> ''string''
         then Inl \<lparr>status = 400, body = error_body ''question is required''\<rparr>
         else
           (case map_turns rt (slice_last30 (safeHistory history)) of
              None \<Rightarrow> Inl (internal_error (Error (TypeError_message rt)))
            | Some turns \<Rightarrow>
                Inr \<lparr>model = ''gpt-4.1-mini'',
                      instructions = Some (chat_systemPrompt (string_value context)),
                      input_messages =
                        turns @ [\<lparr>role = ''user'', content = Text (string_value question)\<rparr>],
                      format_name = ''ChatResponse'',
                      format_schema = ChatResponse_schema\<rparr>))"

definition post_api_chat ::
  "runtime \<Rightarrow> model_api \<Rightarrow> json option \<Rightarrow> http_response \<times> model_request list" where
  "post_api_chat rt api req_body = run_handler rt api (chat_request rt req_body)"

section \<open>Perspective columns and their chats\<close>

datatype Role = User | Assistant

text \<open>\<^verbatim>\<open>type ChatMsg = { role: "user" | "assistant"; text: string }\<close>\<close>

record ChatMsg =
  msg_role :: Role
  msg_text :: string

record Column =
  col_id :: string
  title :: string
  contextBase :: string
  chat :: "ChatMsg list"
  input :: string
  loading :: bool

text \<open>
  The state of \<^verbatim>\<open>App\<close> that \<^verbatim>\<open>askInColumn\<close> reads and writes: the \<^verbatim>\<open>columns\<close> and
  \<^verbatim>\<open>error\<close> states and the counter \<^verbatim>\<open>reqSeqRef.current\<close>. The counter starts at \<open>0\<close> and
  its only writer is the \<^verbatim>\<open>++\<close> in \<^verbatim>\<open>askInColumn\<close>; JavaScript numbers hold the integers up
  to \<open>2 ^ 53\<close> exactly, so it is a natural number.
\<close>

record app_state =
  columns :: "Column list"
  error :: string
  reqSeq :: nat

definition initial_state :: app_state where
  "initial_state = \<lparr>columns = [], error = [], reqSeq = 0\<rparr>"

text \<open>The body of the \<^verbatim>\<open>fetch("/api/chat", ...)\<close> request.\<close>

record chat_payload =
  payload_context :: string
  payload_question :: string
  payload_history :: "ChatMsg list"

text \<open>
  A request in flight: the counter value \<^verbatim>\<open>myReq\<close> and the \<^verbatim>\<open>colId\<close> its continuation
  holds, and what was sent.
\<close>

record pending_request =
  myReq :: nat
  target :: string
  payload :: chat_payload

text \<open>The three updaters \<^verbatim>\<open>askInColumn\<close> passes to \<^verbatim>\<open>setColumns\<close>.\<close>

definition optimistic_update :: "string \<Rightarrow> string \<Rightarrow> Column list \<Rightarrow> Column list" where
  "optimistic_update colId q prev =
     map (\<lambda>c. if col_id c = colId
              then c\<lparr>chat := chat c @ [\<lparr>msg_role = User, msg_text = q\<rparr>],
                     input := [], loading := True\<rparr>
              else c) prev"

definition stop_loading :: "string \<Rightarrow> Column list \<Rightarrow> Column list" where
  "stop_loading colId prev =
     map (\<lambda>c. if col_id c = colId then c\<lparr>loading := False\<rparr> else c) prev"

definition append_answer :: "string \<Rightarrow> string \<Rightarrow> Column list \<Rightarrow> Column list" where
  "append_answer colId cleaned prev =
     map (\<lambda>c. if col_id c = colId
              then c\<lparr>chat := chat c @ [\<lparr>msg_role = Assistant, msg_text = cleaned\<rparr>],
                     loading := False\<rparr>
              else c) prev"

text \<open>
  \<^verbatim>\<open>askInColumn\<close> up to its \<^verbatim>\<open>await fetch\<close>. \<open>closure\<close> is the \<^verbatim>\<open>columns\<close> value of the
  render that created the function, where \<^verbatim>\<open>colSnapshot\<close> is looked up; the updaters act on
  the current state. The result is the request sent, if any, and the state.
\<close>

definition askInColumn ::
  "Column list \<Rightarrow> string \<Rightarrow> string \<Rightarrow> app_state \<Rightarrow> pending_request option \<times> app_state" where
  "askInColumn closure colId txt s0 =
     (let s1 = s0\<lparr>error := []\<rparr>;
          q = trim txt
      in if q = [] then (None, s1)
         else
           let s2 = s1\<lparr>columns := optimistic_update colId q (columns s1)\<rparr>;
               s3 = s2\<lparr>reqSeq := reqSeq s2 + 1\<rparr>;
               myReq = reqSeq s3
           in (case find (\<lambda>c. col_id c = colId) closure of
                 None \<Rightarrow> (None, s3\<lparr>columns := stop_loading colId (columns s3)\<rparr>)
               | Some colSnapshot \<Rightarrow>
                   let historyNext = chat colSnapshot @ [\<lparr>msg_role = User, msg_text = q\<rparr>]
                   in (Some \<lparr>myReq = myReq, target = colId,
                              payload = \<lparr>payload_context = contextBase colSnapshot,
                                         payload_question = q,
                                         payload_history = slice_last30 historyNext\<rparr>\<rparr>,
                       s3)))"

text \<open>
  What the awaited \<^verbatim>\<open>fetch\<close> and \<^verbatim>\<open>r.text()\<close> give: a rejection (the \<^verbatim>\<open>message\<close> of the
  thrown value, if it has one), or the status and the body text of the HTTP response.
\<close>

datatype fetch_outcome = Rejected "string option" | Responded nat string

text \<open>\<^verbatim>\<open>r.ok\<close>\<close>

definition response_ok :: "nat \<Rightarrow> bool" where
  "response_ok st = (200 \<le> st \<and> st \<le> 299)"

text \<open>\<^verbatim>\<open>.replace(/\\n/g, "\n")\<close>: each backslash followed by \<open>n\<close> becomes a line feed.\<close>

fun unescape_newlines :: "string \<Rightarrow> string" where
  "unescape_newlines (c # d # cs) =
     (if c = CHR 0x5C \<and> d = CHR ''n'' then CHR 0x0A # unescape_newlines cs
      else c # unescape_newlines (d # cs))"
| "unescape_newlines cs = cs"

text \<open>The \<^verbatim>\<open>catch (e)\<close> block: \<^verbatim>\<open>e?.message ?? "Unknown error"\<close>, and the column stops loading.\<close>

definition catch_block :: "string \<Rightarrow> string option \<Rightarrow> app_state \<Rightarrow> app_state" where
  "catch_block colId message s =
     s\<lparr>error := (case message of None \<Rightarrow> ''Unknown error'' | Some m \<Rightarrow> m),
       columns := stop_loading colId (columns s)\<rparr>"

definition status_text :: "runtime \<Rightarrow> nat \<Rightarrow> string" where
  "status_text rt st = ''(status '' @ Number_toString rt (real st) @ '')''"

text \<open>\<^verbatim>\<open>new Error(data?.error || `Request failed (status ${r.status})`)\<close>, as its message.\<close>

definition request_failed :: "runtime \<Rightarrow> json \<Rightarrow> nat \<Rightarrow> string" where
  "request_failed rt data st =
     (let e = property data ''error''
      in case ToString (Number_toString rt)
                (case e of
                   None \<Rightarrow> JStr (''Request failed '' @ status_text rt st)
                 | Some v \<Rightarrow> if truthy v then v
                             else JStr (''Request failed '' @ status_text rt st)) of
           None \<Rightarrow> TypeError_message rt
         | Some m \<Rightarrow> m)"

text \<open>
  The continuation of \<^verbatim>\<open>askInColumn\<close> after the \<^verbatim>\<open>await\<close>, run on the state current when the
  response arrives.
\<close>

definition askInColumn_resume ::
  "runtime \<Rightarrow> pending_request \<Rightarrow> fetch_outcome \<Rightarrow> app_state \<Rightarrow> app_state" where
  "askInColumn_resume rt p outcome s =
     (case outcome of
        Rejected message \<Rightarrow> catch_block (target p) message s
      | Responded st raw \<Rightarrow>
          (case (if raw = [] then Some JNull else JSON_parse rt raw) of
             None \<Rightarrow>
               catch_block (target p)
                 (Some (''Non-JSON response '' @ status_text rt st @ '':\<newline>'' @ take 500 raw)) s
           | Some data \<Rightarrow>
               if \<not> response_ok st
               then catch_block (target p) (Some (request_failed rt data st)) s
               else if myReq p \<noteq> reqSeq s then s
               else if data = JNull
               then catch_block (target p) (Some (TypeError_message rt)) s
               else
                 (case ToString (Number_toString rt)
                         (or_empty_string (property data ''answer'')) of
                    None \<Rightarrow> catch_block (target p) (Some (TypeError_message rt)) s
                  | Some answer \<Rightarrow>
                      s\<lparr>columns :=
                          append_answer (target p) (unescape_newlines answer) (columns s)\<rparr>)))"

text \<open>
  What happens to the state over time: calls of \<^verbatim>\<open>askInColumn\<close>, responses arriving for
  requests in flight, and the other writers of the component (\<^verbatim>\<open>setColumns\<close> when an analysis
  finishes, a column is added or removed, an input is edited or the sessions are cleared;
  \<^verbatim>\<open>setError\<close>). None but \<^verbatim>\<open>askInColumn\<close> writes the counter.
\<close>

datatype event =
    Ask "Column list" string string
  | Arrive pending_request fetch_outcome
  | SetColumns "Column list \<Rightarrow> Column list"
  | SetError string

fun step :: "runtime \<Rightarrow> app_state \<Rightarrow> event \<Rightarrow> app_state" where
  "step rt s (Ask closure colId txt) = snd (askInColumn closure colId txt s)"
| "step rt s (Arrive p outcome) = askInColumn_resume rt p outcome s"
| "step rt s (SetColumns f) = s\<lparr>columns := f (columns s)\<rparr>"
| "step rt s (SetError msg) = s\<lparr>error := msg\<rparr>"


section \<open>Conformance to the two response schemas\<close>

text \<open>
  What the schema literals passed to the model API describe: an object, no additional
  properties, every listed property required and of its type.
\<close>

fun is_string :: "json \<Rightarrow> bool" where
  "is_string (JStr s) = True"
| "is_string v = False"

fun is_number :: "json \<Rightarrow> bool" where
  "is_number (JNum r) = True"
| "is_number v = False"

fun is_string_array :: "json \<Rightarrow> bool" where
  "is_string_array (JArr xs) = list_all is_string xs"
| "is_string_array v = False"

definition has_type :: "(string \<times> json) list \<Rightarrow> string \<Rightarrow> (json \<Rightarrow> bool) \<Rightarrow> bool" where
  "has_type kvs k t = (case map_of kvs k of None \<Rightarrow> False | Some v \<Rightarrow> t v)"

fun conforms_ScreenAssistResponse :: "json \<Rightarrow> bool" where
  "conforms_ScreenAssistResponse (JObj kvs) =
     (distinct (map fst kvs)
      \<and> set (map fst kvs) = {''category'', ''confidence'', ''summary'', ''followups''}
      \<and> has_type kvs ''category'' is_string
      \<and> has_type kvs ''confidence'' is_number
      \<and> has_type kvs ''summary'' is_string
      \<and> has_type kvs ''followups'' is_string_array)"
| "conforms_ScreenAssistResponse v = False"

fun conforms_ChatResponse :: "json \<Rightarrow> bool" where
  "conforms_ChatResponse (JObj kvs) =
     (distinct (map fst kvs)
      \<and> set (map fst kvs) = {''answer'', ''followups''}
      \<and> has_type kvs ''answer'' is_string
      \<and> has_type kvs ''followups'' is_string_array)"
| "conforms_ChatResponse v = False"

section \<open>A sample engine and model API for closed examples\<close>

text \<open>
  An engine for the examples below. Its \<^verbatim>\<open>JSON.parse\<close> is the engine's on the texts the
  examples parse: the empty object, one conforming chat answer, and texts that are not JSON
  (any text it does not list is rejected). The examples convert no number to a string.
\<close>

definition sample_JSON_parse :: "string \<Rightarrow> json option" where
  "sample_JSON_parse s =
     (if s = ''{}'' then Some (JObj [])
      else if s = ''{\"answer\":\"ok\",\"followups\":[]}''
      then Some (JObj [(''answer'', JStr ''ok''), (''followups'', JArr [])])
      else None)"

definition sample_runtime :: runtime where
  "sample_runtime =
     \<lparr>JSON_parse = sample_JSON_parse,
      Number_toString = (\<lambda>r. ''NaN''),
      TypeError_message = ''Cannot convert object to primitive value''\<rparr>"

text \<open>A model API that answers every request with the given \<^verbatim>\<open>output_text\<close>.\<close>

definition answering :: "string \<Rightarrow> model_api" where
  "answering output_text = (\<lambda>request. Inr output_text)"

section \<open>Specification predicates\<close>

text \<open>
  What an update aimed at the column \<open>colId\<close> may do to one column: a column with another id
  stays as it is, and no column changes its id, title or context.
\<close>

definition frame :: "string \<Rightarrow> Column \<Rightarrow> Column \<Rightarrow> bool" where
  "frame colId c c' =
     ((col_id c \<noteq> colId \<longrightarrow> c' = c)
      \<and> col_id c' = col_id c \<and> title c' = title c \<and> contextBase c' = contextBase c)"

section \<open>Sample inputs for closed examples\<close>

text \<open>A scroll container of 800 by 600 pixels, scrolled down by 100.\<close>

definition sample_el :: scroll_container where
  "sample_el = \<lparr>clientWidth = 800, clientHeight = 600, scrollLeft = 0, scrollTop = 100\<rparr>"

text \<open>Two columns, and the state that shows them before any question was asked.\<close>

definition sample_columns :: "Column list" where
  "sample_columns =
     [\<lparr>col_id = ''a'', title = ''Explain'', contextBase = ''context A'', chat = [],
       input = ''why?'', loading = False\<rparr>,
      \<lparr>col_id = ''b'', title = ''Perspective 2'', contextBase = ''context B'', chat = [],
       input = [], loading = False\<rparr>]"

definition sample_state :: app_state where
  "sample_state = \<lparr>columns = sample_columns, error = [], reqSeq = 0\<rparr>"

text \<open>The request that asking \<^verbatim>\<open>why?\<close> in column \<^verbatim>\<open>a\<close> of the sample state sends.\<close>

definition sample_request :: pending_request where
  "sample_request =
     \<lparr>myReq = 1, target = ''a'',
      payload = \<lparr>payload_context = ''context A'', payload_question = ''why?'',
                 payload_history = [\<lparr>msg_role = User, msg_text = ''why?''\<rparr>]\<rparr>\<rparr>"

definition sample_answer :: string where
  "sample_answer = ''{\"answer\":\"ok\",\"followups\":[]}''"

text \<open>A valid request body of POST /api/explain with an instruction padded by spaces.\<close>

definition sample_explain_body :: json where
  "sample_explain_body =
     JObj [(''imageDataUrl'', JStr ''data:image/png;base64,AAAA''),
           (''instruction'', JStr ''  step 3 '')]"

text \<open>
  A valid request body of POST /api/chat whose history holds an assistant turn, an entry of
  another role without text, and an entry that is not an object.
\<close>

definition sample_chat_body :: json where
  "sample_chat_body =
     JObj [(''context'', JStr ''context A''),
           (''question'', JStr ''why?''),
           (''history'',
              JArr [JObj [(''role'', JStr ''assistant''), (''text'', JStr ''hello'')],
                    JObj [(''role'', JStr ''system''), (''text'', JNull)],
                    JStr ''junk''])]"

section \<open>Verified properties\<close>

subsection \<open>Shared facts about the column updates\<close>





lemma askInColumn_sent:
  assumes "askInColumn closure colId typed s = (Some p, s')"
  shows "myReq p = reqSeq s'" and "target p = colId" and "reqSeq s' = reqSeq s + 1"
    and "\<exists>c. find (\<lambda>c. col_id c = colId) closure = Some c
              \<and> payload_context (payload p) = contextBase c"
  using assms by (auto simp: askInColumn_def Let_def split: option.splits if_splits)






lemma frame_trans: "frame colId a b \<Longrightarrow> frame colId b c \<Longrightarrow> frame colId a c"
  by (auto simp: frame_def)

lemma list_all2_map_same: "(\<And>x. x \<in> set xs \<Longrightarrow> P x (f x)) \<Longrightarrow> list_all2 P xs (map f xs)"
  by (induction xs) auto

lemma frame_optimistic_update: "list_all2 (frame colId) cols (optimistic_update colId q cols)"
  unfolding optimistic_update_def by (rule list_all2_map_same) (simp add: frame_def)

lemma frame_stop_loading: "list_all2 (frame colId) cols (stop_loading colId cols)"
  unfolding stop_loading_def by (rule list_all2_map_same) (simp add: frame_def)

lemma frame_append_answer: "list_all2 (frame colId) cols (append_answer colId a cols)"
  unfolding append_answer_def by (rule list_all2_map_same) (simp add: frame_def)

lemma frame_list_refl: "list_all2 (frame colId) cols cols"
  by (simp add: list_all2_refl frame_def)

lemma frame_list_trans:
  "list_all2 (frame colId) xs ys \<Longrightarrow> list_all2 (frame colId) ys zs \<Longrightarrow>
   list_all2 (frame colId) xs zs"
  by (rule list_all2_trans[of "frame colId" "frame colId" "frame colId"])
    (auto intro: frame_trans)

lemma frame_askInColumn:
  "list_all2 (frame colId) (columns s) (columns (snd (askInColumn closure colId typed s)))"
  by (auto simp: askInColumn_def Let_def frame_list_refl frame_optimistic_update
      split: option.splits
      intro: frame_list_trans[OF frame_optimistic_update frame_stop_loading])

lemma frame_catch_block:
  "list_all2 (frame colId) (columns s) (columns (catch_block colId m s))"
  by (simp add: catch_block_def frame_stop_loading)

lemma frame_resume:
  "list_all2 (frame (target p)) (columns s) (columns (askInColumn_resume rt p outcome s))"
  by (simp add: askInColumn_resume_def frame_catch_block frame_list_refl frame_append_answer
      split: fetch_outcome.splits option.splits)

lemma sample_ask:
  "askInColumn sample_columns ''a'' ''why?'' sample_state =
     (Some sample_request,
      \<lparr>columns = optimistic_update ''a'' ''why?'' sample_columns, error = [], reqSeq = 1\<rparr>)"
  by (simp add: askInColumn_def sample_state_def sample_columns_def sample_request_def
      trim_def js_whitespace_def slice_last30_def Let_def)

subsection \<open>Shared facts about the handlers\<close>

lemma explain_request_400:
  assumes "typeof (property (body_or_empty b) ''imageDataUrl'') \<noteq> ''string''
     \<or> \<not> startsWith (string_value (property (body_or_empty b) ''imageDataUrl'')) ''data:image/''"
  shows "\<exists>msg. msg \<noteq> [] \<and> explain_request rt b = Inl \<lparr>status = 400, body = error_body msg\<rparr>"
  using assms by (auto simp: explain_request_def Let_def)

lemma chat_request_400:
  assumes "\<not> truthy_opt (property (body_or_empty b) ''context'')
     \<or> typeof (property (body_or_empty b) ''context'') \<noteq> ''string''
     \<or> \<not> truthy_opt (property (body_or_empty b) ''question'')
     \<or> typeof (property (body_or_empty b) ''question'') \<noteq> ''string''"
  shows "\<exists>msg. msg \<noteq> [] \<and> chat_request rt b = Inl \<lparr>status = 400, body = error_body msg\<rparr>"
  using assms by (auto simp: chat_request_def Let_def)

lemma explain_request_Inl_status:
  "explain_request rt b = Inl r \<Longrightarrow> status r = 400 \<or> status r = 500"
  by (auto simp: explain_request_def Let_def internal_error_def split: if_splits option.splits)

lemma chat_request_Inl_status:
  "chat_request rt b = Inl r \<Longrightarrow> status r = 400 \<or> status r = 500"
  by (auto simp: chat_request_def Let_def internal_error_def split: if_splits option.splits)

lemma explain_request_schema:
  "explain_request rt b = Inr req \<Longrightarrow> format_schema req = ScreenAssistResponse_schema"
  by (auto simp: explain_request_def Let_def split: if_splits option.splits)

lemma chat_request_schema:
  "chat_request rt b = Inr req \<Longrightarrow> format_schema req = ChatResponse_schema"
  by (auto simp: chat_request_def Let_def split: if_splits option.splits)

lemma respond_with_output_502:
  "(respond_with_output rt out =
      \<lparr>status = 502, body = JObj [(''error'', JStr invalid_json), (''raw'', JStr out)]\<rparr>)
   = (JSON_parse rt out = None)"
  by (simp add: respond_with_output_def split: option.splits)

lemma respond_with_output_status:
  "status (respond_with_output rt out) = (if JSON_parse rt out = None then 502 else 200)"
  by (simp add: respond_with_output_def split: option.splits)

lemma respond_with_output_200:
  "JSON_parse rt out = Some v \<Longrightarrow> respond_with_output rt out = \<lparr>status = 200, body = v\<rparr>"
  by (simp add: respond_with_output_def)

lemma run_handler_answered:
  "prepared = Inr req \<Longrightarrow> api req = Inr out \<Longrightarrow>
   run_handler rt api prepared = (respond_with_output rt out, [req])"
  by (simp add: run_handler_def)

lemma run_handler_200:
  assumes "status (fst (run_handler rt api prepared)) = 200"
    and "\<And>r. prepared = Inl r \<Longrightarrow> status r \<noteq> 200"
  shows "\<exists>req out. prepared = Inr req \<and> api req = Inr out
           \<and> JSON_parse rt out = Some (body (fst (run_handler rt api prepared)))
           \<and> snd (run_handler rt api prepared) = [req]"
proof (cases prepared)
  case (Inl r)
  with assms show ?thesis by (simp add: run_handler_def)
next
  case (Inr req)
  show ?thesis
  proof (cases "api req")
    case (Inl e)
    with Inr assms show ?thesis
      by (cases e) (simp add: run_handler_def internal_error_def)
  next
    case api: (Inr out)
    with Inr assms show ?thesis
      by (auto simp: run_handler_def respond_with_output_def split: option.splits)
  qed
qed

lemma run_handler_502:
  assumes "\<And>r. prepared = Inl r \<Longrightarrow> status r \<noteq> 502"
  shows "(status (fst (run_handler rt api prepared)) = 502)
     = (\<exists>req out. prepared = Inr req \<and> api req = Inr out \<and> JSON_parse rt out = None)"
proof (cases prepared)
  case (Inl r)
  with assms show ?thesis by (simp add: run_handler_def)
next
  case (Inr req)
  show ?thesis
  proof (cases "api req")
    case (Inl e)
    with Inr show ?thesis
      by (cases e) (simp add: run_handler_def internal_error_def)
  next
    case api: (Inr out)
    with Inr show ?thesis
      by (simp add: run_handler_def respond_with_output_status)
  qed
qed

lemma sample_explain_request:
  "explain_request sample_runtime (Some sample_explain_body) =
     Inr \<lparr>model = ''gpt-4.1-mini'', instructions = None,
          input_messages =
            [\<lparr>role = ''user'',
              content = Parts
                [input_text (explain_systemPrompt @ additional_instruction @ ''step 3''),
                 input_image ''data:image/png;base64,AAAA'']\<rparr>],
          format_name = ''ScreenAssistResponse'',
          format_schema = ScreenAssistResponse_schema\<rparr>"
  by (simp add: explain_request_def sample_explain_body_def sample_runtime_def startsWith_def
      trim_def js_whitespace_def Let_def)

lemma sample_chat_request:
  "chat_request sample_runtime (Some sample_chat_body) =
     Inr \<lparr>model = ''gpt-4.1-mini'',
          instructions = Some (chat_systemPrompt ''context A''),
          input_messages =
            [\<lparr>role = ''assistant'', content = Text ''hello''\<rparr>,
             \<lparr>role = ''user'', content = Text []\<rparr>,
             \<lparr>role = ''user'', content = Text []\<rparr>,
             \<lparr>role = ''user'', content = Text ''why?''\<rparr>],
          format_name = ''ChatResponse'',
          format_schema = ChatResponse_schema\<rparr>"
  by (simp add: chat_request_def sample_chat_body_def sample_runtime_def slice_last30_def
      turn_def Let_def)


lemma map_turns_list_all2:
  "map_turns rt ms = Some ts \<Longrightarrow> list_all2 (\<lambda>m t. turn rt m = Some t) ms ts"
  by (induction ms arbitrary: ts) (auto split: option.splits)

lemma length_slice_last30: "length (slice_last30 xs) = min 30 (length xs)"
  by (auto simp: slice_last30_def)

lemma turn_SomeD:
  assumes "turn rt m = Some t"
  shows "(role t = ''assistant'') = (property m ''role'' = Some (JStr ''assistant''))"
    and "(role t = ''user'') = (property m ''role'' \<noteq> Some (JStr ''assistant''))"
    and "\<exists>str. ToString (Number_toString rt) (or_empty_string (property m ''text'')) = Some str
            \<and> content t = Text str"
    and "\<not> truthy_opt (property m ''text'') \<Longrightarrow> content t = Text []"
  using assms
  by (auto simp: turn_def split: option.splits if_splits elim: truthy_opt.elims)

lemma messages_differ: "outside_visible_area \<noteq> no_canvas_context"
  by (simp add: outside_visible_area_def no_canvas_context_def)

lemma map_turns_total:
  "list_all (\<lambda>m. ToString (Number_toString rt) (or_empty_string (property m ''text'')) \<noteq> None) ms
   \<Longrightarrow> \<exists>ts. map_turns rt ms = Some ts"
  by (induction ms) (auto simp: turn_def split: option.splits)

lemma map_turns_replicate:
  "turn rt m = Some t \<Longrightarrow> map_turns rt (replicate n m) = Some (replicate n t)"
  by (induction n) simp_all

lemma sample_long_history:
  "chat_request sample_runtime
       (Some (JObj [(''context'', JStr ''c''), (''question'', JStr ''q''),
                    (''history'', JArr (replicate 40 JNull))])) =
     Inr \<lparr>model = ''gpt-4.1-mini'',
          instructions = Some (chat_systemPrompt ''c''),
          input_messages =
            replicate 30 \<lparr>role = ''user'', content = Text []\<rparr>
              @ [\<lparr>role = ''user'', content = Text ''q''\<rparr>],
          format_name = ''ChatResponse'',
          format_schema = ChatResponse_schema\<rparr>"
proof -
  have "turn sample_runtime JNull = Some \<lparr>role = ''user'', content = Text []\<rparr>"
    by (simp add: turn_def)
  then have "map_turns sample_runtime (replicate 30 JNull)
      = Some (replicate 30 \<lparr>role = ''user'', content = Text []\<rparr>)"
    by (rule map_turns_replicate)
  then show ?thesis
    by (simp add: chat_request_def slice_last30_def Let_def)
qed

subsection \<open>The claims\<close>






text \<open>
  C3, as amended. The backend sends a fixed JSON schema to the model API as the requested
  output format and does not itself check the returned JSON against it. Every 200 response
  of POST /api/explain and of POST /api/chat follows one model call made with the endpoint's
  schema, and its body is exactly the value the model's \<^verbatim>\<open>output_text\<close> parses to; whatever
  that text parses to is returned with status 200, so the body has the shape the schema
  describes exactly when the model's parsed output has it.
\<close>

theorem responses_200_are_the_parsed_model_output:
  "(status (fst (post_api_explain rt api b)) = 200 \<longrightarrow>
      (\<exists>req out.
         post_api_explain rt api b =
           (\<lparr>status = 200, body = body (fst (post_api_explain rt api b))\<rparr>, [req])
         \<and> format_schema req = ScreenAssistResponse_schema
         \<and> api req = Inr out
         \<and> JSON_parse rt out = Some (body (fst (post_api_explain rt api b)))))
   \<and> (status (fst (post_api_chat rt api b')) = 200 \<longrightarrow>
      (\<exists>req out.
         post_api_chat rt api b' =
           (\<lparr>status = 200, body = body (fst (post_api_chat rt api b'))\<rparr>, [req])
         \<and> format_schema req = ChatResponse_schema
         \<and> api req = Inr out
         \<and> JSON_parse rt out = Some (body (fst (post_api_chat rt api b')))))
   \<and> (explain_request rt b = Inr req \<and> api req = Inr out \<and> JSON_parse rt out = Some v \<longrightarrow>
        fst (post_api_explain rt api b) = \<lparr>status = 200, body = v\<rparr>
        \<and> conforms_ScreenAssistResponse (body (fst (post_api_explain rt api b)))
            = conforms_ScreenAssistResponse v)
   \<and> (chat_request rt b' = Inr req' \<and> api req' = Inr out' \<and> JSON_parse rt out' = Some v' \<longrightarrow>
        fst (post_api_chat rt api b') = \<lparr>status = 200, body = v'\<rparr>
        \<and> conforms_ChatResponse (body (fst (post_api_chat rt api b')))
            = conforms_ChatResponse v')"
proof (intro conjI impI)
  assume a: "status (fst (post_api_explain rt api b)) = 200"
  have "\<And>r. explain_request rt b = Inl r \<Longrightarrow> status r \<noteq> 200"
    using explain_request_Inl_status by fastforce
  from run_handler_200[OF a[unfolded post_api_explain_def] this]
  obtain req out where *: "explain_request rt b = Inr req" "api req = Inr out"
    "JSON_parse rt out = Some (body (fst (post_api_explain rt api b)))"
    "snd (post_api_explain rt api b) = [req]"
    unfolding post_api_explain_def by blast
  with a explain_request_schema[OF *(1)]
  show "\<exists>req out.
         post_api_explain rt api b =
           (\<lparr>status = 200, body = body (fst (post_api_explain rt api b))\<rparr>, [req])
         \<and> format_schema req = ScreenAssistResponse_schema
         \<and> api req = Inr out
         \<and> JSON_parse rt out = Some (body (fst (post_api_explain rt api b)))"
    by (intro exI[of _ req] exI[of _ out]) (auto simp: prod_eq_iff)
next
  assume a: "status (fst (post_api_chat rt api b')) = 200"
  have "\<And>r. chat_request rt b' = Inl r \<Longrightarrow> status r \<noteq> 200"
    using chat_request_Inl_status by fastforce
  from run_handler_200[OF a[unfolded post_api_chat_def] this]
  obtain req out where *: "chat_request rt b' = Inr req" "api req = Inr out"
    "JSON_parse rt out = Some (body (fst (post_api_chat rt api b')))"
    "snd (post_api_chat rt api b') = [req]"
    unfolding post_api_chat_def by blast
  with a chat_request_schema[OF *(1)]
  show "\<exists>req out.
         post_api_chat rt api b' =
           (\<lparr>status = 200, body = body (fst (post_api_chat rt api b'))\<rparr>, [req])
         \<and> format_schema req = ChatResponse_schema
         \<and> api req = Inr out
         \<and> JSON_parse rt out = Some (body (fst (post_api_chat rt api b')))"
    by (intro exI[of _ req] exI[of _ out]) (auto simp: prod_eq_iff)
qed (simp_all add: post_api_explain_def post_api_chat_def run_handler_answered
      respond_with_output_200)

text \<open>
  A chat request answered with a conforming output, and an explain request answered with
  the empty object: both are passed on with status 200.
\<close>

theorem responses_200_witness:
  "fst (post_api_chat sample_runtime (answering sample_answer) (Some sample_chat_body))
     = \<lparr>status = 200, body = JObj [(''answer'', JStr ''ok''), (''followups'', JArr [])]\<rparr>
   \<and> conforms_ChatResponse (JObj [(''answer'', JStr ''ok''), (''followups'', JArr [])])
   \<and> fst (post_api_explain sample_runtime (answering ''{}'') (Some sample_explain_body))
     = \<lparr>status = 200, body = JObj []\<rparr>"
  using responses_200_are_the_parsed_model_output
    [where rt = sample_runtime and api = "answering sample_answer"
       and b' = "Some sample_chat_body" and out' = sample_answer
       and v' = "JObj [(''answer'', JStr ''ok''), (''followups'', JArr [])]"]
    responses_200_are_the_parsed_model_output
    [where rt = sample_runtime and api = "answering ''{}''"
       and b = "Some sample_explain_body" and out = "''{}''" and v = "JObj []"]
    sample_chat_request sample_explain_request
  by (simp add: answering_def sample_runtime_def sample_JSON_parse_def sample_answer_def
      has_type_def)

text \<open>
  The claim as it was stated (every 200 body has the fields of the schema) fails: the model
  output \<^verbatim>\<open>{}\<close> is valid JSON, and POST /api/explain returns it with status 200.
\<close>

theorem explain_200_not_conforming:
  "status (fst (post_api_explain sample_runtime (answering ''{}'')
      (Some (JObj [(''imageDataUrl'', JStr ''data:image/png;base64,AAAA'')])))) = 200
   \<and> body (fst (post_api_explain sample_runtime (answering ''{}'')
      (Some (JObj [(''imageDataUrl'', JStr ''data:image/png;base64,AAAA'')])))) = JObj []
   \<and> \<not> conforms_ScreenAssistResponse (JObj [])"
  by (simp add: post_api_explain_def run_handler_def explain_request_def startsWith_def
      trim_def answering_def respond_with_output_def sample_runtime_def sample_JSON_parse_def)

text \<open>
  C4. Invalid-JSON error path. For every response of the model API, POST /api/explain and
  POST /api/chat answer with status 502 and the body holding the error message
  \<^verbatim>\<open>Model did not return valid JSON\<close> and the raw model output if and only if the model's
  \<^verbatim>\<open>output_text\<close> fails to parse as JSON; when it parses, the parsed value is returned with
  status 200. No other path of a handler answers 502.
\<close>

theorem invalid_json_502_iff:
  "(explain_request rt b = Inr req \<and> api req = Inr out \<longrightarrow>
      ((fst (post_api_explain rt api b) =
          \<lparr>status = 502, body = JObj [(''error'', JStr invalid_json), (''raw'', JStr out)]\<rparr>)
        = (JSON_parse rt out = None))
    \<and> ((status (fst (post_api_explain rt api b)) = 502) = (JSON_parse rt out = None))
    \<and> (\<forall>v. JSON_parse rt out = Some v \<longrightarrow>
          fst (post_api_explain rt api b) = \<lparr>status = 200, body = v\<rparr>))
   \<and> (chat_request rt b' = Inr req' \<and> api req' = Inr out' \<longrightarrow>
      ((fst (post_api_chat rt api b') =
          \<lparr>status = 502, body = JObj [(''error'', JStr invalid_json), (''raw'', JStr out')]\<rparr>)
        = (JSON_parse rt out' = None))
    \<and> ((status (fst (post_api_chat rt api b')) = 502) = (JSON_parse rt out' = None))
    \<and> (\<forall>v. JSON_parse rt out' = Some v \<longrightarrow>
          fst (post_api_chat rt api b') = \<lparr>status = 200, body = v\<rparr>))
   \<and> ((status (fst (post_api_explain rt api b)) = 502)
        = (\<exists>req out. explain_request rt b = Inr req \<and> api req = Inr out
             \<and> JSON_parse rt out = None))
   \<and> ((status (fst (post_api_chat rt api b')) = 502)
        = (\<exists>req out. chat_request rt b' = Inr req \<and> api req = Inr out
             \<and> JSON_parse rt out = None))"
proof -
  have e: "\<And>r. explain_request rt b = Inl r \<Longrightarrow> status r \<noteq> 502"
    using explain_request_Inl_status by fastforce
  have c: "\<And>r. chat_request rt b' = Inl r \<Longrightarrow> status r \<noteq> 502"
    using chat_request_Inl_status by fastforce
  show ?thesis
    unfolding post_api_explain_def post_api_chat_def
    using run_handler_502[OF e, where rt = rt and api = api]
      run_handler_502[OF c, where rt = rt and api = api]
    by (simp add: run_handler_answered respond_with_output_502 respond_with_output_status
        respond_with_output_200)
qed

text \<open>
  An explain request answered with text that is not JSON, and a chat request answered with
  a JSON text.
\<close>

theorem invalid_json_502_witness:
  "JSON_parse sample_runtime ''Sorry, I cannot help.'' = None
   \<and> fst (post_api_explain sample_runtime (answering ''Sorry, I cannot help.'')
          (Some sample_explain_body))
     = \<lparr>status = 502,
        body = JObj [(''error'', JStr ''Model did not return valid JSON''),
                     (''raw'', JStr ''Sorry, I cannot help.'')]\<rparr>
   \<and> JSON_parse sample_runtime sample_answer
       = Some (JObj [(''answer'', JStr ''ok''), (''followups'', JArr [])])
   \<and> fst (post_api_chat sample_runtime (answering sample_answer) (Some sample_chat_body))
     = \<lparr>status = 200, body = JObj [(''answer'', JStr ''ok''), (''followups'', JArr [])]\<rparr>"
  using invalid_json_502_iff
    [where rt = sample_runtime and api = "answering ''Sorry, I cannot help.''"
       and b = "Some sample_explain_body" and out = "''Sorry, I cannot help.''"]
    invalid_json_502_iff
    [where rt = sample_runtime and api = "answering sample_answer"
       and b' = "Some sample_chat_body" and out' = sample_answer]
    sample_chat_request sample_explain_request
  by (simp add: answering_def sample_runtime_def sample_JSON_parse_def sample_answer_def
      invalid_json_def)

text \<open>
  C5, as amended. Outside-viewport capture error. Provided the capture by html2canvas
  succeeds, \<^verbatim>\<open>cropScreenshotFromScrollContainer\<close> throws the error
  \<^verbatim>\<open>Selection is outside the visible area. Scroll to the region and try again.\<close> if and only
  if, with \<open>vx = x - scrollLeft\<close> and \<open>vy = y - scrollTop\<close>, one of \<open>vx + w < 0\<close>,
  \<open>vy + h < 0\<close>, \<open>vx > clientWidth\<close>, \<open>vy > clientHeight\<close> holds. Otherwise, when the output
  canvas yields a 2D context, it produces the data-URL image, and the top-left source
  coordinates of the crop are \<open>max 0 vx * dpr\<close> and \<open>max 0 vy * dpr\<close>, not negative for a
  positive pixel ratio; when the canvas yields no context, it throws
  \<^verbatim>\<open>Canvas context not available\<close>.
\<close>

theorem outside_error_iff:
  assumes "html2canvas env = Inr canvas"
  shows "((cropScreenshotFromScrollContainer env el r = Inl (Error outside_visible_area))
          = (rect_x r - scrollLeft el + rect_w r < 0 \<or> rect_y r - scrollTop el + rect_h r < 0
             \<or> rect_x r - scrollLeft el > clientWidth el
             \<or> rect_y r - scrollTop el > clientHeight el))
    \<and> (cropScreenshotFromScrollContainer env el r \<noteq> Inl (Error outside_visible_area) \<longrightarrow>
         (if context2d env
          then \<exists>img. cropScreenshotFromScrollContainer env el r = Inr img
                 \<and> crop_sx img = max 0 (rect_x r - scrollLeft el) * dpr_or_1 (devicePixelRatio env)
                 \<and> crop_sy img = max 0 (rect_y r - scrollTop el) * dpr_or_1 (devicePixelRatio env)
                 \<and> (0 < dpr_or_1 (devicePixelRatio env) \<longrightarrow> 0 \<le> crop_sx img \<and> 0 \<le> crop_sy img)
          else cropScreenshotFromScrollContainer env el r = Inl (Error no_canvas_context)))"
  using assms messages_differ
  by (auto simp: cropScreenshotFromScrollContainer_def Let_def)

text \<open>
  A selection to the right of the sample container, and one that overlaps its top-left
  corner.
\<close>

theorem outside_error_iff_witness:
  "cropScreenshotFromScrollContainer
     \<lparr>html2canvas = Inr (), devicePixelRatio = None, context2d = True\<rparr> sample_el
     \<lparr>rect_x = 900, rect_y = 120, rect_w = 50, rect_h = 40\<rparr>
     = Inl (Error outside_visible_area)
   \<and> cropScreenshotFromScrollContainer
       \<lparr>html2canvas = Inr (), devicePixelRatio = None, context2d = True\<rparr> sample_el
       \<lparr>rect_x = -20, rect_y = 90, rect_w = 50, rect_h = 40\<rparr>
     = Inr \<lparr>crop_source = (), crop_sx = 0, crop_sy = 0, crop_sw = 50, crop_sh = 40,
            out_width = 50, out_height = 40\<rparr>"
  using outside_error_iff
    [of "\<lparr>html2canvas = Inr (), devicePixelRatio = None, context2d = True\<rparr>" "()"
        sample_el "\<lparr>rect_x = 900, rect_y = 120, rect_w = 50, rect_h = 40\<rparr>"]
    outside_error_iff
    [of "\<lparr>html2canvas = Inr (), devicePixelRatio = None, context2d = True\<rparr>" "()"
        sample_el "\<lparr>rect_x = -20, rect_y = 90, rect_w = 50, rect_h = 40\<rparr>"]
  by (simp add: cropScreenshotFromScrollContainer_def sample_el_def dpr_or_1_def Let_def)

text \<open>
  The claim as it was stated (a data-URL image whenever none of the four conditions holds)
  fails where the output canvas yields no 2D context: none of the conditions holds for this
  selection, and the function throws the other error.
\<close>

theorem no_data_url_without_context:
  "\<not> (rect_x \<lparr>rect_x = 30, rect_y = 150, rect_w = 200, rect_h = 100\<rparr> - scrollLeft sample_el
        + rect_w \<lparr>rect_x = 30, rect_y = 150, rect_w = 200, rect_h = 100\<rparr> < 0
      \<or> rect_y \<lparr>rect_x = 30, rect_y = 150, rect_w = 200, rect_h = 100\<rparr> - scrollTop sample_el
        + rect_h \<lparr>rect_x = 30, rect_y = 150, rect_w = 200, rect_h = 100\<rparr> < 0
      \<or> rect_x \<lparr>rect_x = 30, rect_y = 150, rect_w = 200, rect_h = 100\<rparr> - scrollLeft sample_el
        > clientWidth sample_el
      \<or> rect_y \<lparr>rect_x = 30, rect_y = 150, rect_w = 200, rect_h = 100\<rparr> - scrollTop sample_el
        > clientHeight sample_el)
   \<and> cropScreenshotFromScrollContainer
       \<lparr>html2canvas = Inr (), devicePixelRatio = Some 1, context2d = False\<rparr> sample_el
       \<lparr>rect_x = 30, rect_y = 150, rect_w = 200, rect_h = 100\<rparr>
     = Inl (Error no_canvas_context)
   \<and> Error no_canvas_context \<noteq> Error outside_visible_area"
  by (simp add: cropScreenshotFromScrollContainer_def sample_el_def Let_def
      no_canvas_context_def outside_visible_area_def)

text \<open>
  C6. Per-column isolation and fixed context. For every call \<^verbatim>\<open>askInColumn(colId, text)\<close>, the
  optimistic update, the whole call up to the request, and the handling of the response
  each leave every column whose id differs from \<open>colId\<close> as it is, keep the number and order
  of the columns, and change the id, \<^verbatim>\<open>title\<close> and \<^verbatim>\<open>contextBase\<close> of no column. The request
  is sent for \<open>colId\<close> with the \<^verbatim>\<open>contextBase\<close> of that column as its context.
\<close>

theorem askInColumn_frame:
  "list_all2 (frame colId) (columns s) (optimistic_update colId (trim typed) (columns s))
   \<and> list_all2 (frame colId) (columns s) (columns (snd (askInColumn closure colId typed s)))
   \<and> list_all2 (frame (target p)) (columns s') (columns (askInColumn_resume rt p outcome s'))
   \<and> (askInColumn closure colId typed s = (Some q, sq) \<longrightarrow>
        target q = colId
        \<and> (\<exists>c. find (\<lambda>c. col_id c = colId) closure = Some c
               \<and> payload_context (payload q) = contextBase c))"
proof (intro conjI impI)
  assume "askInColumn closure colId typed s = (Some q, sq)"
  then show "target q = colId"
    and "\<exists>c. find (\<lambda>c. col_id c = colId) closure = Some c
             \<and> payload_context (payload q) = contextBase c"
    by (rule askInColumn_sent(2), rule askInColumn_sent(4))
qed (rule frame_optimistic_update frame_askInColumn frame_resume)+

text \<open>
  Asking in column \<^verbatim>\<open>a\<close> of the sample state, and the answer arriving: column \<^verbatim>\<open>b\<close> is the
  same before and after, and column \<^verbatim>\<open>a\<close> keeps its title and context.
\<close>

theorem askInColumn_frame_witness:
  "askInColumn sample_columns ''a'' ''why?'' sample_state =
       (Some sample_request,
        \<lparr>columns = optimistic_update ''a'' ''why?'' sample_columns, error = [], reqSeq = 1\<rparr>)
   \<and> columns (askInColumn_resume sample_runtime sample_request (Responded 200 sample_answer)
        \<lparr>columns = optimistic_update ''a'' ''why?'' sample_columns, error = [], reqSeq = 1\<rparr>)
     = [\<lparr>col_id = ''a'', title = ''Explain'', contextBase = ''context A'',
         chat = [\<lparr>msg_role = User, msg_text = ''why?''\<rparr>,
                 \<lparr>msg_role = Assistant, msg_text = ''ok''\<rparr>],
         input = [], loading = False\<rparr>,
        \<lparr>col_id = ''b'', title = ''Perspective 2'', contextBase = ''context B'', chat = [],
         input = [], loading = False\<rparr>]
   \<and> payload_context (payload sample_request) = ''context A''"
  using askInColumn_frame
    [where colId = "''a''" and typed = "''why?''" and s = sample_state
       and closure = sample_columns and q = sample_request
       and sq = "\<lparr>columns = optimistic_update ''a'' ''why?'' sample_columns, error = [],
                      reqSeq = 1\<rparr>"
       and p = sample_request and rt = sample_runtime
       and outcome = "Responded 200 sample_answer"
       and s' = "\<lparr>columns = optimistic_update ''a'' ''why?'' sample_columns, error = [],
                   reqSeq = 1\<rparr>"]
    sample_ask
  by (simp add: askInColumn_resume_def sample_request_def sample_runtime_def
      sample_JSON_parse_def sample_answer_def response_ok_def append_answer_def
      optimistic_update_def sample_columns_def)



text \<open>
  C8. History truncation and role coercion in /api/chat. The handler calls the model whenever
  \<^verbatim>\<open>context\<close> and \<^verbatim>\<open>question\<close> are valid and the texts of the last 30 entries convert to
  strings, and then the message list sent consists of the converted last 30 entries of the \<^verbatim>\<open>history\<close> array
  (all of them when there are fewer; none when \<^verbatim>\<open>history\<close> is missing or not an array)
  followed by the question, so it has at most 31 entries. Each forwarded entry has the role
  \<^verbatim>\<open>assistant\<close> exactly when the role of the incoming entry is the string \<^verbatim>\<open>assistant\<close>, and
  the role \<^verbatim>\<open>user\<close> otherwise; its content is the text of the entry converted to a string,
  the empty string when the text is missing or falsy.
\<close>

theorem chat_history_window:
  "(chat_request rt b = Inr req \<longrightarrow>
     (\<exists>turns.
        input_messages req =
          turns @ [\<lparr>role = ''user'',
                    content = Text (string_value (property (body_or_empty b) ''question''))\<rparr>]
      \<and> length turns = min 30 (length (safeHistory (property (body_or_empty b) ''history'')))
      \<and> length (input_messages req) \<le> 31
      \<and> list_all2
           (\<lambda>m t. (role t = ''assistant'') = (property m ''role'' = Some (JStr ''assistant''))
                 \<and> (role t = ''user'') = (property m ''role'' \<noteq> Some (JStr ''assistant''))
                 \<and> (\<exists>str. ToString (Number_toString rt) (or_empty_string (property m ''text''))
                             = Some str \<and> content t = Text str)
                 \<and> (\<not> truthy_opt (property m ''text'') \<longrightarrow> content t = Text []))
           (drop (length (safeHistory (property (body_or_empty b) ''history'')) - 30)
              (safeHistory (property (body_or_empty b) ''history'')))
           turns
      \<and> ((\<forall>xs. property (body_or_empty b) ''history'' \<noteq> Some (JArr xs)) \<longrightarrow> turns = [])))
   \<and> (truthy_opt (property (body_or_empty b) ''context'')
      \<and> typeof (property (body_or_empty b) ''context'') = ''string''
      \<and> truthy_opt (property (body_or_empty b) ''question'')
      \<and> typeof (property (body_or_empty b) ''question'') = ''string''
      \<and> list_all
           (\<lambda>m. ToString (Number_toString rt) (or_empty_string (property m ''text'')) \<noteq> None)
           (slice_last30 (safeHistory (property (body_or_empty b) ''history'')))
      \<longrightarrow> (\<exists>req'. chat_request rt b = Inr req'))"
proof (intro conjI impI)
  assume sent: "chat_request rt b = Inr req"
  let ?h = "safeHistory (property (body_or_empty b) ''history'')"
  from sent obtain turns where
    mt: "map_turns rt (slice_last30 ?h) = Some turns" and
    inp: "input_messages req =
        turns @ [\<lparr>role = ''user'',
                  content = Text (string_value (property (body_or_empty b) ''question''))\<rparr>]"
    by (auto simp: chat_request_def Let_def split: if_splits option.splits)
  from map_turns_list_all2[OF mt]
  have rel: "list_all2 (\<lambda>m t. turn rt m = Some t) (slice_last30 ?h) turns" .
  then have len: "length turns = min 30 (length ?h)"
    using list_all2_lengthD length_slice_last30 by metis
  have rel': "list_all2
         (\<lambda>m t. (role t = ''assistant'') = (property m ''role'' = Some (JStr ''assistant''))
               \<and> (role t = ''user'') = (property m ''role'' \<noteq> Some (JStr ''assistant''))
               \<and> (\<exists>str. ToString (Number_toString rt) (or_empty_string (property m ''text''))
                           = Some str \<and> content t = Text str)
               \<and> (\<not> truthy_opt (property m ''text'') \<longrightarrow> content t = Text []))
         (drop (length ?h - 30) ?h) turns"
    using rel unfolding slice_last30_def
    by (rule list_all2_mono) (use turn_SomeD in blast)
  have empty: "(\<forall>xs. property (body_or_empty b) ''history'' \<noteq> Some (JArr xs)) \<longrightarrow> turns = []"
  proof
    assume "\<forall>xs. property (body_or_empty b) ''history'' \<noteq> Some (JArr xs)"
    then have "?h = []"
      by (cases "property (body_or_empty b) ''history''" rule: safeHistory.cases) auto
    with len show "turns = []" by simp
  qed
  from inp len rel' empty show "\<exists>turns.
        input_messages req =
          turns @ [\<lparr>role = ''user'',
                    content = Text (string_value (property (body_or_empty b) ''question''))\<rparr>]
      \<and> length turns = min 30 (length ?h)
      \<and> length (input_messages req) \<le> 31
      \<and> list_all2
           (\<lambda>m t. (role t = ''assistant'') = (property m ''role'' = Some (JStr ''assistant''))
                 \<and> (role t = ''user'') = (property m ''role'' \<noteq> Some (JStr ''assistant''))
                 \<and> (\<exists>str. ToString (Number_toString rt) (or_empty_string (property m ''text''))
                             = Some str \<and> content t = Text str)
                 \<and> (\<not> truthy_opt (property m ''text'') \<longrightarrow> content t = Text []))
           (drop (length ?h - 30) ?h)
           turns
      \<and> ((\<forall>xs. property (body_or_empty b) ''history'' \<noteq> Some (JArr xs)) \<longrightarrow> turns = [])"
    by auto
next
  let ?h = "safeHistory (property (body_or_empty b) ''history'')"
  assume valid: "truthy_opt (property (body_or_empty b) ''context'')
      \<and> typeof (property (body_or_empty b) ''context'') = ''string''
      \<and> truthy_opt (property (body_or_empty b) ''question'')
      \<and> typeof (property (body_or_empty b) ''question'') = ''string''
      \<and> list_all
           (\<lambda>m. ToString (Number_toString rt) (or_empty_string (property m ''text'')) \<noteq> None)
           (slice_last30 ?h)"
  then obtain turns where "map_turns rt (slice_last30 ?h) = Some turns"
    using map_turns_total by blast
  with valid show "\<exists>req'. chat_request rt b = Inr req'"
    by (simp add: chat_request_def Let_def)
qed

text \<open>
  The sample body with its history of three entries, and a body whose history holds
  \<^verbatim>\<open>null\<close> 40 times: 30 turns and the question are sent.
\<close>

theorem chat_history_window_witness:
  "chat_request sample_runtime (Some sample_chat_body) =
     Inr \<lparr>model = ''gpt-4.1-mini'',
          instructions = Some (chat_systemPrompt ''context A''),
          input_messages =
            [\<lparr>role = ''assistant'', content = Text ''hello''\<rparr>,
             \<lparr>role = ''user'', content = Text []\<rparr>,
             \<lparr>role = ''user'', content = Text []\<rparr>,
             \<lparr>role = ''user'', content = Text ''why?''\<rparr>],
          format_name = ''ChatResponse'',
          format_schema = ChatResponse_schema\<rparr>
   \<and> chat_request sample_runtime
       (Some (JObj [(''context'', JStr ''c''), (''question'', JStr ''q''),
                    (''history'', JArr (replicate 40 JNull))])) =
     Inr \<lparr>model = ''gpt-4.1-mini'',
          instructions = Some (chat_systemPrompt ''c''),
          input_messages =
            replicate 30 \<lparr>role = ''user'', content = Text []\<rparr>
              @ [\<lparr>role = ''user'', content = Text ''q''\<rparr>],
          format_name = ''ChatResponse'',
          format_schema = ChatResponse_schema\<rparr>"
  using chat_history_window[where rt = sample_runtime and b = "Some sample_chat_body"]
    sample_chat_request
    chat_history_window
      [where rt = sample_runtime
         and b = "Some (JObj [(''context'', JStr ''c''), (''question'', JStr ''q''),
                              (''history'', JArr (replicate 40 JNull))])"]
    sample_long_history
  by simp

text \<open>
  C9. Request validation answers 400 before any model call. POST /api/explain answers with
  status 400 and an error message, and makes no request to the model API, whenever
  \<^verbatim>\<open>imageDataUrl\<close> is missing or not a string, or does not start with \<^verbatim>\<open>data:image/\<close>.
  POST /api/chat does so whenever \<^verbatim>\<open>context\<close> or \<^verbatim>\<open>question\<close> is missing, falsy or not a
  string.
\<close>

theorem validation_400_before_model_call:
  "(typeof (property (body_or_empty b) ''imageDataUrl'') \<noteq> ''string''
      \<or> \<not> startsWith (string_value (property (body_or_empty b) ''imageDataUrl'')) ''data:image/''
    \<longrightarrow> (\<exists>msg. msg \<noteq> [] \<and>
          post_api_explain rt api b = (\<lparr>status = 400, body = error_body msg\<rparr>, [])))
   \<and> (\<not> truthy_opt (property (body_or_empty b') ''context'')
      \<or> typeof (property (body_or_empty b') ''context'') \<noteq> ''string''
      \<or> \<not> truthy_opt (property (body_or_empty b') ''question'')
      \<or> typeof (property (body_or_empty b') ''question'') \<noteq> ''string''
    \<longrightarrow> (\<exists>msg. msg \<noteq> [] \<and>
          post_api_chat rt api b' = (\<lparr>status = 400, body = error_body msg\<rparr>, [])))"
proof (intro conjI impI)
  assume "typeof (property (body_or_empty b) ''imageDataUrl'') \<noteq> ''string''
      \<or> \<not> startsWith (string_value (property (body_or_empty b) ''imageDataUrl'')) ''data:image/''"
  from explain_request_400[OF this, of rt]
  show "\<exists>msg. msg \<noteq> [] \<and>
          post_api_explain rt api b = (\<lparr>status = 400, body = error_body msg\<rparr>, [])"
    by (auto simp: post_api_explain_def run_handler_def)
next
  assume "\<not> truthy_opt (property (body_or_empty b') ''context'')
      \<or> typeof (property (body_or_empty b') ''context'') \<noteq> ''string''
      \<or> \<not> truthy_opt (property (body_or_empty b') ''question'')
      \<or> typeof (property (body_or_empty b') ''question'') \<noteq> ''string''"
  from chat_request_400[OF this, of rt]
  show "\<exists>msg. msg \<noteq> [] \<and>
          post_api_chat rt api b' = (\<lparr>status = 400, body = error_body msg\<rparr>, [])"
    by (auto simp: post_api_chat_def run_handler_def)
qed

text \<open>
  At a body whose \<^verbatim>\<open>imageDataUrl\<close> is a number, and at a body with an empty \<^verbatim>\<open>question\<close>.
\<close>

theorem validation_400_witness:
  "typeof (property (body_or_empty (Some (JObj [(''imageDataUrl'', JNum 7)]))) ''imageDataUrl'')
     = ''number''
   \<and> post_api_explain sample_runtime (answering ''{}'')
        (Some (JObj [(''imageDataUrl'', JNum 7)]))
       = (\<lparr>status = 400, body = error_body ''imageDataUrl is required''\<rparr>, [])
   \<and> truthy_opt (property (body_or_empty
        (Some (JObj [(''context'', JStr ''c''), (''question'', JStr [])]))) ''question'') = False
   \<and> post_api_chat sample_runtime (answering ''{}'')
        (Some (JObj [(''context'', JStr ''c''), (''question'', JStr [])]))
       = (\<lparr>status = 400, body = error_body ''question is required''\<rparr>, [])"
  using validation_400_before_model_call
    [of "Some (JObj [(''imageDataUrl'', JNum 7)])" sample_runtime "answering ''{}''"
        "Some (JObj [(''context'', JStr ''c''), (''question'', JStr [])])"]
  by (simp add: post_api_explain_def post_api_chat_def run_handler_def explain_request_def
      chat_request_def error_body_def)


text \<open>
  C10. Drag-direction independence: \<open>normalizeRect a b = normalizeRect b a\<close>, its corner is the
  componentwise minimum of the two points, and its width and height are the absolute
  differences, hence non-negative.
\<close>

theorem normalizeRect_symmetric_wellformed:
  "normalizeRect a b = normalizeRect b a
   \<and> rect_x (normalizeRect a b) = min (pt_x a) (pt_x b)
   \<and> rect_y (normalizeRect a b) = min (pt_y a) (pt_y b)
   \<and> rect_w (normalizeRect a b) = \<bar>pt_x a - pt_x b\<bar>
   \<and> rect_h (normalizeRect a b) = \<bar>pt_y a - pt_y b\<bar>
   \<and> 0 \<le> rect_w (normalizeRect a b)
   \<and> 0 \<le> rect_h (normalizeRect a b)"
  by (simp add: normalizeRect_def min.commute abs_minus_commute)

end
